theory Spec2Isabelle
  imports Main "HOL-Library.Sublist"
begin

section \<open>Text: Python strings as lists of code points\<close>

text \<open>
  The validator works on Python \<^verbatim>\<open>str\<close> values: sequences of Unicode code points.
  Lesson files contain Japanese text and the arrow U+2192, so a string is modelled as a list
  of code points (\<^typ>\<open>nat\<close>), not of bytes. \<open>ustr\<close> turns an ASCII literal into such a
  list.
\<close>

type_synonym ustring = "nat list"

definition ustr :: "string \<Rightarrow> ustring" where
  "ustr s = map of_char s"

text \<open>
  \<^verbatim>\<open>str.isspace\<close>, the class \<^verbatim>\<open>\s\<close> of \<^verbatim>\<open>re\<close> on \<^verbatim>\<open>str\<close> patterns, and the
  separators of \<^verbatim>\<open>str.split()\<close> and \<^verbatim>\<open>str.strip()\<close> are one and the same set of
  code points.
\<close>

definition is_space :: "nat \<Rightarrow> bool" where
  "is_space c \<longleftrightarrow>
     (9 \<le> c \<and> c \<le> 13) \<or> (28 \<le> c \<and> c \<le> 32) \<or> c = 133 \<or> c = 160 \<or> c = 5760
     \<or> (8192 \<le> c \<and> c \<le> 8202) \<or> c = 8232 \<or> c = 8233 \<or> c = 8239 \<or> c = 8287
     \<or> c = 12288"

definition py_strip :: "ustring \<Rightarrow> ustring" where
  "py_strip s = rev (dropWhile is_space (rev (dropWhile is_space s)))"

text \<open>\<^verbatim>\<open>s.split()\<close>: the maximal runs of non-whitespace, \<open>cur\<close> being the run read so far.\<close>

fun split_ws_from :: "ustring \<Rightarrow> ustring \<Rightarrow> ustring list" where
  "split_ws_from cur [] = (if cur = [] then [] else [cur])"
| "split_ws_from cur (c # cs) =
     (if is_space c then (if cur = [] then split_ws_from [] cs else cur # split_ws_from [] cs)
      else split_ws_from (cur @ [c]) cs)"

definition py_split :: "ustring \<Rightarrow> ustring list" where
  "py_split s = split_ws_from [] s"

text \<open>\<^verbatim>\<open>s.split(d)\<close> for a one-character separator: empty pieces are kept.\<close>

fun split_on :: "nat \<Rightarrow> ustring \<Rightarrow> ustring list" where
  "split_on d [] = [[]]"
| "split_on d (c # cs) =
     (if c = d then [] # split_on d cs
      else (case split_on d cs of [] \<Rightarrow> [[c]] | p # ps \<Rightarrow> (c # p) # ps))"

text \<open>\<^verbatim>\<open>pat in s\<close> on strings: \<open>pat\<close> occurs as a contiguous run.\<close>

fun is_substr :: "ustring \<Rightarrow> ustring \<Rightarrow> bool" where
  "is_substr pat [] = (pat = [])"
| "is_substr pat (c # cs) = (prefix pat (c # cs) \<or> is_substr pat cs)"

text \<open>Decimal rendering of a natural number, as an f-string prints an \<^verbatim>\<open>int\<close>.\<close>

fun str_nat :: "nat \<Rightarrow> ustring" where
  "str_nat n = (if n < 10 then [48 + n] else str_nat (n div 10) @ [48 + n mod 10])"

declare str_nat.simps [simp del]

section \<open>The lesson tree and the findings\<close>

text \<open>
  \<^verbatim>\<open>json.loads\<close> yields dictionaries; the validator reads them with \<^verbatim>\<open>.get\<close>. Fields
  carry the types of the lesson files: strings, a list of hint strings, a list of
  vocabulary entries (an entry that is not a list is \<open>VOther\<close>), a list of questions, a
  list of sections. A value of another JSON type in one of these places (a number for a
  string, a \<^verbatim>\<open>null\<close> inside a list) makes the Python raise; such trees are outside this
  model.

  A key may be absent, or present with the value \<^verbatim>\<open>null\<close>. The default of \<^verbatim>\<open>.get\<close>
  applies to an absent key only. For \<^verbatim>\<open>num\<close>, \<^verbatim>\<open>title\<close> and \<^verbatim>\<open>questions\<close> the two
  cases differ in what the validator does, and the field says which one it is. For
  \<^verbatim>\<open>text\<close>, \<^verbatim>\<open>answer\<close>, \<^verbatim>\<open>translation\<close>, \<^verbatim>\<open>vocab\<close>, \<^verbatim>\<open>hint\<close> and \<^verbatim>\<open>sections\<close>
  the first thing done with the value is a truth test, which \<^verbatim>\<open>None\<close> fails like the
  empty default; there \<open>None\<close> stands for both.
\<close>

datatype 'a field = Absent | Null | Value 'a

text \<open>The value of \<^verbatim>\<open>num\<close> as a finding carries it; \<open>NumNone\<close> is Python's \<^verbatim>\<open>None\<close>.\<close>

datatype numval = NumStr ustring | NumInt int | NumNone

datatype vocab_entry = VList "ustring list" | VOther

text \<open>The exceptions the validator can raise on such a tree.\<close>

datatype py_error = AttributeError | TypeError | ValueError

record question =
  q_num :: "numval field"
  q_text :: "ustring option"
  q_answer :: "ustring option"
  q_translation :: "ustring option"
  q_vocab :: "vocab_entry list option"
  q_hint :: "ustring list option"

record lesson_section =
  s_title :: "ustring field"
  s_questions :: "question list field"

record grammar_data =
  g_sections :: "lesson_section list option"

datatype kind = vocab_leak | hint_leak | missing_field | no_pedagogy | hint_count
  | file_size | parse_error | no_sections | categoryMap_mismatch

datatype severity = HIGH | MEDIUM | LOW

record finding =
  f_type :: kind
  f_severity :: severity
  f_question :: numval
  f_section :: ustring
  f_detail :: ustring

section \<open>What the interpreter supplies\<close>

text \<open>
  Three tables of the Unicode character database, the JSON parser and a limit of the
  integer conversion belong to the Python runtime, not to the repository; they are
  parameters of the model. On ASCII the tables are fixed below and the parameters are
  never asked.
  \<^item> \<open>uni_alnum c\<close>: \<^verbatim>\<open>chr(c).isalnum()\<close> for a code point above 127;
  \<^item> \<open>uni_decimal c\<close>: the value of a decimal digit above 127, as \<^verbatim>\<open>\d\<close> and
    \<^verbatim>\<open>int()\<close> read it;
  \<^item> \<open>uni_lower s\<close>: \<^verbatim>\<open>s.lower()\<close> for a string that is not pure ASCII;
  \<^item> \<open>json_loads t\<close>: \<^verbatim>\<open>json.loads(t)\<close>, \<open>Inl\<close> carrying the message of the
    \<^verbatim>\<open>JSONDecodeError\<close>;
  \<^item> \<open>int_max_str_digits\<close>: \<^verbatim>\<open>sys.get_int_max_str_digits()\<close>, the greatest number of
    digits \<^verbatim>\<open>int()\<close> converts (4300 unless configured; \<open>None\<close> where there is no
    limit). A longer run of digits raises \<^verbatim>\<open>ValueError\<close>.
\<close>

record runtime =
  uni_alnum :: "nat \<Rightarrow> bool"
  uni_decimal :: "nat \<Rightarrow> nat option"
  uni_lower :: "ustring \<Rightarrow> ustring"
  json_loads :: "ustring \<Rightarrow> ustring + grammar_data"
  int_max_str_digits :: "nat option"

definition is_digit :: "runtime \<Rightarrow> nat \<Rightarrow> bool" where
  "is_digit rt c \<longleftrightarrow>
     (if c < 128 then 48 \<le> c \<and> c \<le> 57 else \<not> is_space c \<and> uni_decimal rt c \<noteq> None)"

text \<open>The class \<^verbatim>\<open>\w\<close>: alphanumeric or underscore.\<close>

definition is_word :: "runtime \<Rightarrow> nat \<Rightarrow> bool" where
  "is_word rt c \<longleftrightarrow>
     (if c < 128 then (48 \<le> c \<and> c \<le> 57) \<or> (65 \<le> c \<and> c \<le> 90) \<or> c = 95 \<or> (97 \<le> c \<and> c \<le> 122)
      else \<not> is_space c \<and> (uni_alnum rt c \<or> uni_decimal rt c \<noteq> None))"

definition ascii_lower :: "nat \<Rightarrow> nat" where
  "ascii_lower c = (if 65 \<le> c \<and> c \<le> 90 then c + 32 else c)"

definition py_lower :: "runtime \<Rightarrow> ustring \<Rightarrow> ustring" where
  "py_lower rt s = (if list_all (\<lambda>c. c < 128) s then map ascii_lower s else uni_lower rt s)"

text \<open>
  \<^verbatim>\<open>re.search(r'\b' + re.escape(pat) + r'\b', s)\<close>: \<open>pat\<close> occurs in \<open>s\<close> with a
  word boundary on either side. A boundary lies between a \<^verbatim>\<open>\w\<close> character and a
  character that is not one, the two ends of the string counting as not one. \<open>prev\<close> is
  the character before the current position.
\<close>

definition opt_word :: "runtime \<Rightarrow> nat option \<Rightarrow> bool" where
  "opt_word rt x = (case x of None \<Rightarrow> False | Some c \<Rightarrow> is_word rt c)"

definition at_boundary :: "runtime \<Rightarrow> nat option \<Rightarrow> nat option \<Rightarrow> bool" where
  "at_boundary rt before after \<longleftrightarrow> opt_word rt before \<noteq> opt_word rt after"

definition head_opt :: "ustring \<Rightarrow> nat option" where
  "head_opt s = (case s of [] \<Rightarrow> None | c # _ \<Rightarrow> Some c)"

definition word_match_here :: "runtime \<Rightarrow> ustring \<Rightarrow> nat option \<Rightarrow> ustring \<Rightarrow> bool" where
  "word_match_here rt pat prev s \<longleftrightarrow>
     prefix pat s \<and> at_boundary rt prev (head_opt s)
     \<and> at_boundary rt (if pat = [] then prev else Some (last pat))
          (head_opt (drop (length pat) s))"

fun word_search_from :: "runtime \<Rightarrow> ustring \<Rightarrow> nat option \<Rightarrow> ustring \<Rightarrow> bool" where
  "word_search_from rt pat prev [] = word_match_here rt pat prev []"
| "word_search_from rt pat prev (c # cs) =
     (word_match_here rt pat prev (c # cs) \<or> word_search_from rt pat (Some c) cs)"

definition word_search :: "runtime \<Rightarrow> ustring \<Rightarrow> ustring \<Rightarrow> bool" where
  "word_search rt pat s = word_search_from rt pat None s"

section \<open>Locating the data literal\<close>

text \<open>
  \<^verbatim>\<open>re.search(r'const grammarData\s*=\s*(\{.*?\n\});', html_content, re.DOTALL)\<close>.
  The lazy \<^verbatim>\<open>.*?\<close> stops at the first newline, closing brace, semicolon after the
  opening brace: \<open>before_terminator\<close> returns the text in front of it.
\<close>

fun before_terminator :: "ustring \<Rightarrow> ustring option" where
  "before_terminator [] = None"
| "before_terminator (c # cs) =
     (if prefix [10, 125, 59] (c # cs) then Some []
      else map_option ((#) c) (before_terminator cs))"

text \<open>One attempt of the pattern at the start of \<open>s\<close>; the result is group 1.\<close>

definition grammar_match_here :: "ustring \<Rightarrow> ustring option" where
  "grammar_match_here s =
     (if prefix (ustr ''const grammarData'') s then
        (case dropWhile is_space (drop (length (ustr ''const grammarData'')) s) of
           [] \<Rightarrow> None
         | e # r1 \<Rightarrow>
             if e = 61 then
               (case dropWhile is_space r1 of
                  [] \<Rightarrow> None
                | b # r2 \<Rightarrow>
                    if b = 123 then
                      (case before_terminator r2 of
                         None \<Rightarrow> None
                       | Some body \<Rightarrow> Some (123 # body @ [10, 125]))
                    else None)
             else None)
      else None)"

text \<open>\<^verbatim>\<open>re.search\<close> tries the positions from left to right.\<close>

fun extract_grammar_data_text :: "ustring \<Rightarrow> ustring option" where
  "extract_grammar_data_text [] = None"
| "extract_grammar_data_text (c # cs) =
     (case grammar_match_here (c # cs) of
        Some g \<Rightarrow> Some g
      | None \<Rightarrow> extract_grammar_data_text cs)"

text \<open>
  The other extractor of the repository, \<^verbatim>\<open>extract_grammar_data\<close> of
  \<^verbatim>\<open>upload-answers.py\<close>, counts braces from the opening brace on and skips quoted
  strings and template literals. \<open>scan_balanced\<close> is its \<^verbatim>\<open>while\<close> loop: the result is
  \<^verbatim>\<open>html_content[start:i + 1]\<close>, the text up to the brace that brings the depth back
  to 0 (or all of it when there is none).
\<close>

datatype scan_mode = Code | InString nat | Escaped nat

fun scan_balanced :: "scan_mode \<Rightarrow> int \<Rightarrow> ustring \<Rightarrow> ustring" where
  "scan_balanced m depth [] = []"
| "scan_balanced Code depth (ch # cs) =
     (if ch = 123 then ch # scan_balanced Code (depth + 1) cs
      else if ch = 125 then (if depth - 1 = 0 then [ch] else ch # scan_balanced Code (depth - 1) cs)
      else if ch = 34 \<or> ch = 39 \<or> ch = 96 then ch # scan_balanced (InString ch) depth cs
      else ch # scan_balanced Code depth cs)"
| "scan_balanced (InString quote) depth (ch # cs) =
     (if ch = quote then ch # scan_balanced Code depth cs
      else if ch = 92 then ch # scan_balanced (Escaped quote) depth cs
      else ch # scan_balanced (InString quote) depth cs)"
| "scan_balanced (Escaped quote) depth (ch # cs) = ch # scan_balanced (InString quote) depth cs"

section \<open>Normalising the literal\<close>

text \<open>\<^verbatim>\<open>re.sub(r'//[^\n]*', '', text)\<close>\<close>

function strip_line_comments :: "ustring \<Rightarrow> ustring" where
  "strip_line_comments [] = []"
| "strip_line_comments (c # cs) =
     (if prefix [47, 47] (c # cs) then strip_line_comments (dropWhile (\<lambda>x. x \<noteq> 10) cs)
      else c # strip_line_comments cs)"
  by pat_completeness auto
termination
  by (relation "measure length") (auto intro: le_imp_less_Suc length_dropWhile_le)

text \<open>
  \<^verbatim>\<open>re.sub(r'/\*.*?\*/', '', text, flags=re.DOTALL)\<close>. \<open>after_block_end\<close> gives what
  follows the first \<^verbatim>\<open>*/\<close>.
\<close>

fun after_block_end :: "ustring \<Rightarrow> ustring option" where
  "after_block_end [] = None"
| "after_block_end (c # cs) =
     (if prefix [42, 47] (c # cs) then Some (drop 1 cs) else after_block_end cs)"

lemma after_block_end_length: "after_block_end s = Some r \<Longrightarrow> length r < length s"
  by (induction s) (auto split: if_splits)

function strip_block_comments :: "ustring \<Rightarrow> ustring" where
  "strip_block_comments [] = []"
| "strip_block_comments (c # cs) =
     (if prefix [47, 42] (c # cs) then
        (case after_block_end (drop 1 cs) of
           Some rest \<Rightarrow> strip_block_comments rest
         | None \<Rightarrow> c # strip_block_comments cs)
      else c # strip_block_comments cs)"
  by pat_completeness auto
termination
  by (relation "measure length") (auto dest!: after_block_end_length intro: less_le_trans)

text \<open>
  \<^verbatim>\<open>re.sub(r'(?<=[{,\n])\s*(\w+)\s*:', r' "\1":', text)\<close>. \<open>key_match_here\<close> is one
  attempt of \<^verbatim>\<open>\s*(\w+)\s*:\<close>: the key and the text after the colon. \<open>prev\<close> is the
  character the look-behind sees.
\<close>

definition key_match_here :: "runtime \<Rightarrow> ustring \<Rightarrow> (ustring \<times> ustring) option" where
  "key_match_here rt s =
     (let s1 = dropWhile is_space s;
          key = takeWhile (is_word rt) s1;
          s2 = dropWhile is_space (dropWhile (is_word rt) s1)
      in if key = [] then None
         else (case s2 of [] \<Rightarrow> None | c # rest \<Rightarrow> if c = 58 then Some (key, rest) else None))"

lemma key_match_here_length: "key_match_here rt s = Some (k, r) \<Longrightarrow> length r < length s"
proof -
  assume a: "key_match_here rt s = Some (k, r)"
  let ?s2 = "dropWhile is_space (dropWhile (is_word rt) (dropWhile is_space s))"
  from a have "?s2 = 58 # r"
    by (auto simp: key_match_here_def Let_def split: if_splits list.splits)
  then have "length r < length ?s2" by simp
  also have "length ?s2 \<le> length s"
    by (meson length_dropWhile_le order_trans)
  finally show ?thesis .
qed

function quote_keys_from :: "runtime \<Rightarrow> nat option \<Rightarrow> ustring \<Rightarrow> ustring" where
  "quote_keys_from rt prev [] = []"
| "quote_keys_from rt prev (c # cs) =
     (if prev = Some 123 \<or> prev = Some 44 \<or> prev = Some 10 then
        (case key_match_here rt (c # cs) of
           Some (key, rest) \<Rightarrow> [32, 34] @ key @ [34, 58] @ quote_keys_from rt (Some 58) rest
         | None \<Rightarrow> c # quote_keys_from rt (Some c) cs)
      else c # quote_keys_from rt (Some c) cs)"
  by pat_completeness auto
termination
  by (relation "measure (\<lambda>(rt, prev, s). length s)") (auto dest: key_match_here_length)

text \<open>\<^verbatim>\<open>re.sub(r',\s*([}\]])', r'\1', text)\<close>\<close>

function strip_trailing_commas :: "ustring \<Rightarrow> ustring" where
  "strip_trailing_commas [] = []"
| "strip_trailing_commas (c # cs) =
     (if c = 44 then
        (case dropWhile is_space cs of
           [] \<Rightarrow> c # strip_trailing_commas cs
         | b # rest \<Rightarrow>
             if b = 125 \<or> b = 93 then b # strip_trailing_commas rest
             else c # strip_trailing_commas cs)
      else c # strip_trailing_commas cs)"
  by pat_completeness auto
termination
proof (relation "measure length", goal_cases)
  case (3 c cs b rest)
  have "length (dropWhile is_space cs) \<le> length cs" by (rule length_dropWhile_le)
  with 3 show ?case by simp
qed auto

definition js_to_json :: "runtime \<Rightarrow> ustring \<Rightarrow> ustring" where
  "js_to_json rt js_text =
     strip_trailing_commas
       (quote_keys_from rt None (strip_block_comments (strip_line_comments js_text)))"

definition parse_grammar_data :: "runtime \<Rightarrow> ustring \<Rightarrow> ustring + grammar_data" where
  "parse_grammar_data rt html_content =
     (case extract_grammar_data_text html_content of
        None \<Rightarrow> Inl (ustr ''Could not find grammarData block'')
      | Some raw \<Rightarrow>
          (case json_loads rt (js_to_json rt raw) of
             Inl e \<Rightarrow> Inl (ustr ''JSON parse error: '' @ e)
           | Inr data \<Rightarrow> Inr data))"

section \<open>Answer classification\<close>

text \<open>\<^verbatim>\<open>re.sub(r'^[a-d]\.\s*', '', s)\<close>: the pattern can only match at the start.\<close>

definition strip_choice_prefix :: "ustring \<Rightarrow> ustring" where
  "strip_choice_prefix s =
     (case s of
        c # d # rest \<Rightarrow> if 97 \<le> c \<and> c \<le> 100 \<and> d = 46 then dropWhile is_space rest else s
      | _ \<Rightarrow> s)"

definition is_sentence_answer :: "ustring \<Rightarrow> bool" where
  "is_sentence_answer answer_str =
     (let clean = strip_choice_prefix (py_strip answer_str);
          word_count = length (py_split clean)
      in word_count \<ge> 4)"

definition COMMON_WORDS :: "ustring set" where
  "COMMON_WORDS = set (map ustr
     [''a'', ''an'', ''the'', ''is'', ''are'', ''was'', ''were'', ''be'', ''been'', ''being'',
      ''have'', ''has'', ''had'', ''do'', ''does'', ''did'', ''will'', ''would'', ''can'',
      ''could'', ''should'', ''may'', ''might'', ''shall'', ''must'', ''to'', ''of'', ''in'',
      ''on'', ''at'', ''by'', ''for'', ''with'', ''from'', ''as'', ''it'', ''its'', ''that'',
      ''this'', ''not'', ''no'', ''so'', ''if'', ''or'', ''and'', ''but'', ''i'', ''he'', ''she'',
      ''we'', ''they'', ''you'', ''me'', ''him'', ''her'', ''us'', ''them'', ''my'', ''his'',
      ''our'', ''your'', ''their''])"

text \<open>
  \<^verbatim>\<open>extract_answer_words\<close>: the comparison words of an answer. For \<^verbatim>\<open>X \<rightarrow> Y\<close> (the
  arrow is U+2192, code point 8594) only what follows the last arrow is kept.
\<close>

definition extract_answer_words :: "runtime \<Rightarrow> ustring \<Rightarrow> ustring list" where
  "extract_answer_words rt answer_str =
     (let answer0 = strip_choice_prefix (py_strip answer_str);
          answer = (if 8594 \<in> set answer0 then py_strip (last (split_on 8594 answer0))
                    else answer0)
      in if is_sentence_answer answer then [py_strip (py_lower rt answer)]
         else
           (let words = map (\<lambda>w. py_lower rt (py_strip w))
                          (filter (\<lambda>w. py_strip w \<noteq> []) (split_on 44 answer));
                full = py_strip (py_lower rt answer)
            in if full \<noteq> [] \<and> full \<notin> set words then words @ [full] else words))"

section \<open>Hint leaks\<close>

text \<open>\<^verbatim>\<open>question.get("num", "?")\<close>\<close>

definition num_of :: "question \<Rightarrow> numval" where
  "num_of q = (case q_num q of Absent \<Rightarrow> NumStr (ustr ''?'') | Null \<Rightarrow> NumNone | Value n \<Rightarrow> n)"

text \<open>The finding of hint \<open>i\<close> (counted from 0) for the answer part \<open>aw\<close>, if any.\<close>

definition hint_finding :: "numval \<Rightarrow> ustring \<Rightarrow> nat \<Rightarrow> ustring \<Rightarrow> string \<Rightarrow> ustring \<Rightarrow> finding" where
  "hint_finding num section_title i hint verb aw =
     \<lparr>f_type = hint_leak, f_severity = HIGH, f_question = num, f_section = section_title,
      f_detail = ustr ''Hint '' @ str_nat (i + 1) @ ustr verb @ [39] @ aw @ [39, 58, 32, 34]
                 @ take 60 hint @ ustr ''...'' @ [34]\<rparr>"

definition check_hint_part ::
  "runtime \<Rightarrow> numval \<Rightarrow> ustring \<Rightarrow> nat \<Rightarrow> ustring \<Rightarrow> ustring \<Rightarrow> finding list" where
  "check_hint_part rt num section_title i hint aw =
     (let hint_lower = py_lower rt hint
      in if aw = [] \<or> aw \<in> COMMON_WORDS then []
         else if 32 \<in> set aw then
           (if is_substr aw hint_lower
            then [hint_finding num section_title i hint '' states answer '' aw] else [])
         else
           (if word_search rt aw hint_lower
            then [hint_finding num section_title i hint '' contains answer '' aw] else []))"

definition check_hint_leaks :: "runtime \<Rightarrow> question \<Rightarrow> ustring \<Rightarrow> finding list" where
  "check_hint_leaks rt q section_title =
     (let answer = (case q_answer q of None \<Rightarrow> [] | Some a \<Rightarrow> a);
          hints = (case q_hint q of None \<Rightarrow> [] | Some h \<Rightarrow> h);
          num = num_of q
      in if answer = [] \<or> hints = [] then []
         else
           (let clean_answer = strip_choice_prefix (py_strip answer)
            in if is_sentence_answer answer then []
               else
                 (let parts0 = map (\<lambda>w. py_lower rt (py_strip w))
                                 (filter (\<lambda>w. py_strip w \<noteq> []) (split_on 44 clean_answer));
                      full_answer = py_strip (py_lower rt clean_answer);
                      answer_parts = (if full_answer \<notin> set parts0 then parts0 @ [full_answer]
                                      else parts0)
                  in concat (map (\<lambda>(i, hint).
                       concat (map (check_hint_part rt num section_title i hint) answer_parts))
                       (enumerate 0 hints)))))"

section \<open>Vocabulary leaks\<close>

definition function_words :: "ustring set" where
  "function_words = set (map ustr
     [''so'', ''not'', ''no'', ''in'', ''by'', ''as'', ''of'', ''such'', ''both'', ''either'',
      ''neither'', ''nor'', ''whether'', ''until'', ''unless'', ''once'', ''that''])"

definition vocab_finding :: "numval \<Rightarrow> ustring \<Rightarrow> ustring \<Rightarrow> finding" where
  "vocab_finding num section_title detail =
     \<lparr>f_type = vocab_leak, f_severity = HIGH, f_question = num, f_section = section_title,
      f_detail = detail\<rparr>"

text \<open>
  The body of the inner loop of \<^verbatim>\<open>check_vocab_leaks\<close>: one vocabulary entry (its head
  \<open>head\<close>, lower-cased \<open>vocab_word\<close>, and without punctuation \<open>vocab_word_plain\<close>)
  against one answer word \<open>aw\<close>.
\<close>

definition check_vocab_word ::
  "runtime \<Rightarrow> numval \<Rightarrow> ustring \<Rightarrow> bool \<Rightarrow> ustring \<Rightarrow> ustring \<Rightarrow> ustring \<Rightarrow> ustring
   \<Rightarrow> finding list" where
  "check_vocab_word rt num section_title sentence_answer head vocab_word vocab_word_plain aw =
     (if aw = [] then []
      else if sentence_answer then
        (if length (py_split vocab_word_plain) < 2 then []
         else
           (let phrase_words = set (py_split vocab_word_plain);
                has_function_word = (phrase_words \<inter> function_words \<noteq> {})
            in if has_function_word \<and> is_substr vocab_word_plain aw
               then [vocab_finding num section_title
                       (ustr ''Vocab '' @ [39] @ head @ [39]
                        @ ustr '' teaches grammar pattern from answer'')]
               else []))
      else
        (if aw \<in> COMMON_WORDS then []
         else if word_search rt aw vocab_word
           then [vocab_finding num section_title
                   (ustr ''Vocab '' @ [39] @ head @ [39] @ ustr '' contains answer '' @ [39] @ aw
                    @ [39])]
         else if word_search rt vocab_word_plain aw
           then [vocab_finding num section_title
                   (ustr ''Vocab '' @ [39] @ head @ [39] @ ustr '' matches answer '' @ [39] @ aw
                    @ [39])]
         else []))"

text \<open>The body of the outer loop: the findings of one vocabulary entry.\<close>

definition check_vocab_entry ::
  "runtime \<Rightarrow> numval \<Rightarrow> ustring \<Rightarrow> bool \<Rightarrow> ustring list \<Rightarrow> vocab_entry \<Rightarrow> finding list" where
  "check_vocab_entry rt num section_title sentence_answer answer_words entry =
     (case entry of
        VOther \<Rightarrow> []
      | VList e \<Rightarrow>
          (case e of
             head # _ # _ \<Rightarrow>
               (let vocab_word = py_lower rt head;
                    vocab_word_plain =
                      py_strip (filter (\<lambda>c. is_word rt c \<or> is_space c) vocab_word)
                in if vocab_word_plain \<in> COMMON_WORDS then []
                   else concat (map (check_vocab_word rt num section_title sentence_answer head
                                       vocab_word vocab_word_plain) answer_words))
           | _ \<Rightarrow> []))"

definition check_vocab_leaks :: "runtime \<Rightarrow> question \<Rightarrow> ustring \<Rightarrow> finding list" where
  "check_vocab_leaks rt q section_title =
     (let answer = (case q_answer q of None \<Rightarrow> [] | Some a \<Rightarrow> a);
          vocab = (case q_vocab q of None \<Rightarrow> [] | Some v \<Rightarrow> v);
          num = num_of q
      in if answer = [] \<or> vocab = [] then []
         else
           (let sentence_answer = is_sentence_answer answer;
                answer_words = extract_answer_words rt answer
            in concat (map (check_vocab_entry rt num section_title sentence_answer answer_words)
                         vocab)))"

section \<open>Structural checks\<close>

text \<open>\<^verbatim>\<open>not value or (isinstance(value, str) and not value.strip())\<close>\<close>

definition field_missing :: "ustring option \<Rightarrow> bool" where
  "field_missing v = (case v of None \<Rightarrow> True | Some s \<Rightarrow> s = [] \<or> py_strip s = [])"

definition missing_finding :: "numval \<Rightarrow> ustring \<Rightarrow> string \<Rightarrow> finding" where
  "missing_finding num section_title field =
     \<lparr>f_type = missing_field, f_severity = MEDIUM, f_question = num, f_section = section_title,
      f_detail = ustr ''Missing required field: '' @ ustr field\<rparr>"

text \<open>The section keywords, as code points: narabekae, eisakubun, kuusho-hojuu.\<close>

definition translation_keywords :: "ustring list" where
  "translation_keywords =
     [[20006, 12409, 12363, 12360], [33521, 20316, 25991], [31354, 25152, 35036, 20805]]"

definition demote :: "finding \<Rightarrow> finding" where
  "demote issue =
     (if f_type issue = missing_field \<and> is_substr (ustr ''translation'') (f_detail issue)
      then issue\<lparr>f_severity := LOW\<rparr> else issue)"

definition check_required_fields :: "runtime \<Rightarrow> question \<Rightarrow> ustring \<Rightarrow> finding list" where
  "check_required_fields rt q section_title =
     (let num = num_of q;
          issues1 =
            (if field_missing (q_text q) then [missing_finding num section_title ''text''] else [])
            @ (if field_missing (q_answer q) then [missing_finding num section_title ''answer'']
               else [])
            @ (if field_missing (q_translation q)
               then [missing_finding num section_title ''translation''] else []);
          issues2 =
            (if (q_vocab q = None \<or> q_vocab q = Some []) \<and> (q_hint q = None \<or> q_hint q = Some [])
             then issues1 @
               [\<lparr>f_type = no_pedagogy, f_severity = LOW, f_question = num,
                 f_section = section_title,
                 f_detail = ustr ''No vocab AND no hints (student gets no help)''\<rparr>]
             else issues1);
          section_lower = py_lower rt section_title;
          translation_optional = list_ex (\<lambda>kw. is_substr kw section_lower) translation_keywords
      in if translation_optional then map demote issues2 else issues2)"

definition check_hint_count :: "question \<Rightarrow> ustring \<Rightarrow> finding list" where
  "check_hint_count q section_title =
     (let hints = (case q_hint q of None \<Rightarrow> [] | Some h \<Rightarrow> h);
          num = num_of q
      in if hints \<noteq> [] \<and> length hints \<noteq> 3
         then [\<lparr>f_type = hint_count, f_severity = LOW, f_question = num,
                f_section = section_title,
                f_detail = ustr ''Expected 3 hints, found '' @ str_nat (length hints)\<rparr>]
         else [])"

section \<open>The category map\<close>

text \<open>
  \<^verbatim>\<open>re.search(r'categoryMap:\s*\{([^}]+)\}', content)\<close>: one attempt at the start of
  \<open>s\<close>, then the search from left to right. Group 1 is the non-empty text between the
  opening brace and the first closing brace.
\<close>

definition category_match_here :: "ustring \<Rightarrow> ustring option" where
  "category_match_here s =
     (if prefix (ustr ''categoryMap:'') s then
        (case dropWhile is_space (drop (length (ustr ''categoryMap:'')) s) of
           [] \<Rightarrow> None
         | b # r \<Rightarrow>
             if b = 123 \<and> takeWhile (\<lambda>x. x \<noteq> 125) r \<noteq> [] \<and> dropWhile (\<lambda>x. x \<noteq> 125) r \<noteq> []
             then Some (takeWhile (\<lambda>x. x \<noteq> 125) r) else None)
      else None)"

fun search_category_map :: "ustring \<Rightarrow> ustring option" where
  "search_category_map [] = None"
| "search_category_map (c # cs) =
     (case category_match_here (c # cs) of
        Some g \<Rightarrow> Some g
      | None \<Rightarrow> search_category_map cs)"

text \<open>\<^verbatim>\<open>re.finditer(r'\d+', cat_text)\<close>: the maximal runs of digits.\<close>

fun digit_runs_from :: "runtime \<Rightarrow> ustring \<Rightarrow> ustring \<Rightarrow> ustring list" where
  "digit_runs_from rt cur [] = (if cur = [] then [] else [cur])"
| "digit_runs_from rt cur (c # cs) =
     (if is_digit rt c then digit_runs_from rt (cur @ [c]) cs
      else if cur = [] then digit_runs_from rt [] cs
      else cur # digit_runs_from rt [] cs)"

definition digit_value :: "runtime \<Rightarrow> nat \<Rightarrow> nat" where
  "digit_value rt c =
     (if c < 128 then c - 48 else (case uni_decimal rt c of None \<Rightarrow> 0 | Some d \<Rightarrow> d))"

text \<open>
  \<^verbatim>\<open>int(s)\<close> for a run of digits: its value, and whether the conversion raises
  \<^verbatim>\<open>ValueError\<close> because the run has more digits than the runtime converts.
\<close>

definition int_raises :: "runtime \<Rightarrow> ustring \<Rightarrow> bool" where
  "int_raises rt s = (case int_max_str_digits rt of None \<Rightarrow> False | Some m \<Rightarrow> length s > m)"

definition py_int :: "runtime \<Rightarrow> ustring \<Rightarrow> nat" where
  "py_int rt s = foldl (\<lambda>a c. 10 * a + digit_value rt c) 0 s"

definition referenced_indices :: "runtime \<Rightarrow> ustring \<Rightarrow> nat set" where
  "referenced_indices rt cat_text = set (map (py_int rt) (digit_runs_from rt [] cat_text))"

text \<open>\<^verbatim>\<open>str\<close> of a list of integers, as the f-string prints \<^verbatim>\<open>sorted(...)\<close>.\<close>

fun join_nats :: "nat list \<Rightarrow> ustring" where
  "join_nats [] = []"
| "join_nats [n] = str_nat n"
| "join_nats (n # m # ns) = str_nat n @ [44, 32] @ join_nats (m # ns)"

definition str_nat_list :: "nat list \<Rightarrow> ustring" where
  "str_nat_list ns = [91] @ join_nats ns @ [93]"

text \<open>
  The category check of \<^verbatim>\<open>validate_file\<close>, for a document text and the number of
  sections of its parsed tree: the findings it adds, or the exception of the first
  conversion that raises.
\<close>

definition check_category_map :: "runtime \<Rightarrow> ustring \<Rightarrow> nat \<Rightarrow> py_error + finding list" where
  "check_category_map rt content n_sections =
     (case search_category_map content of
        None \<Rightarrow> Inr []
      | Some cat_text \<Rightarrow>
          if list_ex (int_raises rt) (digit_runs_from rt [] cat_text) then Inl ValueError
          else Inr
          (let referenced = referenced_indices rt cat_text;
               expected = {0..<n_sections}
           in if referenced \<noteq> expected then
                (let missing = expected - referenced;
                     extra = referenced - expected;
                     detail1 = (if missing \<noteq> {}
                                then ustr ''Sections not in categoryMap: ''
                                     @ str_nat_list (sorted_list_of_set missing) @ ustr ''. ''
                                else []);
                     detail2 = (if extra \<noteq> {}
                                then detail1 @ ustr ''categoryMap references non-existent sections: ''
                                     @ str_nat_list (sorted_list_of_set extra) @ ustr ''.''
                                else detail1)
                 in [\<lparr>f_type = categoryMap_mismatch, f_severity = HIGH,
                      f_question = NumStr (ustr ''-''), f_section = ustr ''-'',
                      f_detail = py_strip detail2\<rparr>])
              else []))"

section \<open>Validating a file and a run\<close>

text \<open>
  A lesson file as \<^verbatim>\<open>validate_file\<close> sees it: the base name of its path, its size in
  bytes (\<^verbatim>\<open>os.path.getsize\<close>) and its decoded text. Reading the file is not modelled.
\<close>

record lesson_file =
  filename :: ustring
  size_bytes :: nat
  content :: ustring

record meta =
  m_sections :: nat
  m_questions :: nat
  m_size_kb :: nat

definition MAX_HTML_SIZE :: nat where
  "MAX_HTML_SIZE = 200 * 1024"

definition file_finding :: "kind \<Rightarrow> severity \<Rightarrow> ustring \<Rightarrow> finding" where
  "file_finding k sev detail =
     \<lparr>f_type = k, f_severity = sev, f_question = NumStr (ustr ''-''), f_section = ustr ''-'',
      f_detail = detail\<rparr>"

text \<open>
  The four checks of one question, in the order of the loop. The title is \<open>None\<close> when it
  is Python's \<^verbatim>\<open>None\<close> (a \<^verbatim>\<open>null\<close> title). The two leak checks only store the title
  in their findings; \<^verbatim>\<open>check_required_fields\<close> then calls \<^verbatim>\<open>section_title.lower()\<close>,
  which raises \<^verbatim>\<open>AttributeError\<close> on \<^verbatim>\<open>None\<close>, so with such a title the checks of a
  question end in that exception.
\<close>

definition check_question :: "runtime \<Rightarrow> ustring option \<Rightarrow> question \<Rightarrow> py_error + finding list" where
  "check_question rt title q =
     (case title of
        None \<Rightarrow> Inl AttributeError
      | Some t \<Rightarrow>
          Inr (check_vocab_leaks rt q t @ check_hint_leaks rt q t
               @ check_required_fields rt q t @ check_hint_count q t))"

text \<open>
  A loop that extends the list of issues by the findings of each element: the first
  exception ends it.
\<close>

fun collect :: "('a \<Rightarrow> py_error + finding list) \<Rightarrow> 'a list \<Rightarrow> py_error + finding list" where
  "collect check [] = Inr []"
| "collect check (x # xs) =
     (case check x of
        Inl e \<Rightarrow> Inl e
      | Inr found \<Rightarrow>
          (case collect check xs of
             Inl e \<Rightarrow> Inl e
           | Inr rest \<Rightarrow> Inr (found @ rest)))"

text \<open>
  The body of the loop over the sections. \<^verbatim>\<open>section.get("title", "Unknown section")\<close>
  and \<^verbatim>\<open>section.get("questions", [])\<close> give \<^verbatim>\<open>None\<close> for a \<^verbatim>\<open>null\<close>;
  \<^verbatim>\<open>len(questions)\<close> raises \<^verbatim>\<open>TypeError\<close> on \<^verbatim>\<open>None\<close>, before any question is
  checked.
\<close>

definition check_section :: "runtime \<Rightarrow> lesson_section \<Rightarrow> py_error + finding list" where
  "check_section rt sec =
     (let title = (case s_title sec of
                     Absent \<Rightarrow> Some (ustr ''Unknown section'')
                   | Null \<Rightarrow> None
                   | Value t \<Rightarrow> Some t)
      in case s_questions sec of
           Absent \<Rightarrow> Inr []
         | Null \<Rightarrow> Inl TypeError
         | Value questions \<Rightarrow> collect (check_question rt title) questions)"

text \<open>\<^verbatim>\<open>total_questions\<close> once the loop has ended without an exception.\<close>

definition count_questions :: "lesson_section list \<Rightarrow> nat" where
  "count_questions sections =
     sum_list (map (\<lambda>sec. case s_questions sec of Value qs \<Rightarrow> length qs | _ \<Rightarrow> 0) sections)"

text \<open>
  The result is \<^verbatim>\<open>(filename, issues)\<close> or \<^verbatim>\<open>(filename, issues, meta)\<close>, or the
  exception that ended the call.
\<close>

definition validate_file ::
  "runtime \<Rightarrow> lesson_file \<Rightarrow> py_error + (ustring \<times> finding list \<times> meta option)" where
  "validate_file rt f =
     (let size = size_bytes f;
          issues0 =
            (if size > MAX_HTML_SIZE
             then [file_finding file_size MEDIUM
                     (ustr ''File is '' @ str_nat (size div 1024) @ ustr ''KB (limit: ''
                      @ str_nat (MAX_HTML_SIZE div 1024) @ ustr ''KB)'')]
             else [])
      in case parse_grammar_data rt (content f) of
           Inl error \<Rightarrow> Inr (filename f, issues0 @ [file_finding parse_error HIGH error], None)
         | Inr data \<Rightarrow>
             (let sections = (case g_sections data of None \<Rightarrow> [] | Some ss \<Rightarrow> ss)
              in if sections = [] then
                   Inr (filename f,
                        issues0
                        @ [file_finding no_sections HIGH (ustr ''grammarData has no sections'')],
                        None)
                 else
                   (case check_category_map rt (content f) (length sections) of
                      Inl e \<Rightarrow> Inl e
                    | Inr category_issues \<Rightarrow>
                        (case collect (check_section rt) sections of
                           Inl e \<Rightarrow> Inl e
                         | Inr question_issues \<Rightarrow>
                             Inr (filename f,
                                  issues0 @ category_issues @ question_issues,
                                  Some \<lparr>m_sections = length sections,
                                        m_questions = count_questions sections,
                                        m_size_kb = size div 1024\<rparr>)))))"

text \<open>The findings a call produced; a call that raised produced none.\<close>

definition issues_of ::
  "py_error + (ustring \<times> finding list \<times> meta option) \<Rightarrow> finding list" where
  "issues_of result = (case result of Inl e \<Rightarrow> [] | Inr r \<Rightarrow> fst (snd r))"

definition completes :: "runtime \<Rightarrow> lesson_file \<Rightarrow> bool" where
  "completes rt f = (case validate_file rt f of Inl e \<Rightarrow> False | Inr r \<Rightarrow> True)"

text \<open>\<^verbatim>\<open>print_report\<close> prints and returns whether the file has no issue.\<close>

definition print_report :: "ustring \<Rightarrow> finding list \<Rightarrow> meta option \<Rightarrow> bool" where
  "print_report name issues m = (issues = [])"

text \<open>
  \<^verbatim>\<open>main\<close> once the list of files to check is known: the exit status of the process.
  The loop keeps \<^verbatim>\<open>all_passed\<close>. \<^verbatim>\<open>main\<close> catches no exception: one raised by
  \<^verbatim>\<open>validate_file\<close> ends the process with status 1.
\<close>

fun run_files :: "runtime \<Rightarrow> bool \<Rightarrow> lesson_file list \<Rightarrow> py_error + bool" where
  "run_files rt all_passed [] = Inr all_passed"
| "run_files rt all_passed (f # fs) =
     (case validate_file rt f of
        Inl e \<Rightarrow> Inl e
      | Inr (name, issues, m) \<Rightarrow>
          (let passed = print_report name issues m
           in run_files rt (if \<not> passed then False else all_passed) fs))"

definition main_exit :: "runtime \<Rightarrow> lesson_file list \<Rightarrow> nat" where
  "main_exit rt files =
     (if files = [] then 1
      else (case run_files rt True files of
              Inl e \<Rightarrow> 1
            | Inr all_passed \<Rightarrow> if all_passed then 0 else 1))"

section \<open>A runtime for examples\<close>

text \<open>
  A runtime in which no code point above 127 is alphanumeric, a digit or cased. The Python
  runtime agrees with it on every text whose code points above 127 are of that sort, the
  arrow U+2192 among them. The parser is left open; the digit limit is the default.
\<close>

definition basic_runtime :: "(ustring \<Rightarrow> ustring + grammar_data) \<Rightarrow> runtime" where
  "basic_runtime loads =
     \<lparr>uni_alnum = (\<lambda>c. False), uni_decimal = (\<lambda>c. None), uni_lower = map ascii_lower,
      json_loads = loads, int_max_str_digits = Some 4300\<rparr>"

definition no_parser :: "ustring \<Rightarrow> ustring + grammar_data" where
  "no_parser t = Inl (ustr ''no parser'')"

text \<open>
  Two small lesson documents with the trees the JSON parser returns for their normalised
  literals. \<open>demo_file tail\<close> has one empty section and \<open>tail\<close> after the literal;
  \<open>low_file\<close> has one question with no vocabulary and no hints, and no category map.
\<close>

definition demo_tree :: grammar_data where
  "demo_tree = \<lparr>g_sections = Some [\<lparr>s_title = Absent, s_questions = Absent\<rparr>]\<rparr>"

definition demo_file :: "string \<Rightarrow> lesson_file" where
  "demo_file tail =
     \<lparr>filename = ustr ''Lesson 1.html'', size_bytes = 64,
      content = ustr ''const grammarData = {sections: [{}]'' @ [10] @ ustr ''};'' @ ustr tail\<rparr>"

definition low_question :: question where
  "low_question =
     \<lparr>q_num = Absent, q_text = Some (ustr ''t''), q_answer = Some (ustr ''a''),
      q_translation = Some (ustr ''n''), q_vocab = None, q_hint = None\<rparr>"

definition low_tree :: grammar_data where
  "low_tree =
     \<lparr>g_sections = Some [\<lparr>s_title = Absent, s_questions = Value [low_question]\<rparr>]\<rparr>"

definition low_file :: lesson_file where
  \<open>low_file =
     \<lparr>filename = ustr ''Lesson 2.html'', size_bytes = 100,
      content =
        ustr ''const grammarData = {sections: [{questions: [{text: "t", answer: "a", translation: "n"}]}]''
        @ [10] @ ustr ''};''\<rparr>\<close>

definition demo_loads :: "ustring \<Rightarrow> ustring + grammar_data" where
  \<open>demo_loads t =
     (if t = ustr ''{ "sections": [{}]'' @ [10, 125] then Inr demo_tree
      else if t = ustr ''{ "sections": [{ "questions": [{ "text": "t", "answer": "a", "translation": "n"}]}]''
                  @ [10, 125]
      then Inr low_tree
      else Inl (ustr ''Expecting value''))\<close>

definition demo_runtime :: runtime where
  "demo_runtime = basic_runtime demo_loads"

section \<open>Notions used to state the properties\<close>

text \<open>The findings of kind \<open>categoryMap_mismatch\<close> in a list of findings.\<close>

definition mismatch_findings :: "finding list \<Rightarrow> finding list" where
  "mismatch_findings issues = filter (\<lambda>x. f_type x = categoryMap_mismatch) issues"

text \<open>The detail text of a mismatch finding, for the sets of missing and of extra indices.\<close>

definition mismatch_detail :: "nat set \<Rightarrow> nat set \<Rightarrow> ustring" where
  "mismatch_detail missing extra =
     py_strip
       ((if missing \<noteq> {}
         then ustr ''Sections not in categoryMap: '' @ str_nat_list (sorted_list_of_set missing)
              @ ustr ''. ''
         else [])
        @ (if extra \<noteq> {}
           then ustr ''categoryMap references non-existent sections: ''
                @ str_nat_list (sorted_list_of_set extra) @ ustr ''.''
           else []))"





text \<open>
  The patterns of the last two rewriting steps of \<open>js_to_json\<close>, as tests: some position
  of the text where the key pattern matches, and some comma that only whitespace separates
  from a closing brace or bracket.
\<close>

fun has_bare_key_from :: "runtime \<Rightarrow> nat option \<Rightarrow> ustring \<Rightarrow> bool" where
  "has_bare_key_from rt prev [] = False"
| "has_bare_key_from rt prev (c # cs) =
     (((prev = Some 123 \<or> prev = Some 44 \<or> prev = Some 10) \<and> key_match_here rt (c # cs) \<noteq> None)
      \<or> has_bare_key_from rt (Some c) cs)"

fun has_trailing_comma :: "ustring \<Rightarrow> bool" where
  "has_trailing_comma [] = False"
| "has_trailing_comma (c # cs) =
     ((c = 44 \<and> (case dropWhile is_space cs of [] \<Rightarrow> False | b # rest \<Rightarrow> b = 125 \<or> b = 93))
      \<or> has_trailing_comma cs)"

text \<open>
  The spec's reading of a literal with nothing to normalise. The spec speaks of comments,
  bare keys and trailing commas of the literal itself, outside its string literals.
  \<open>code_part\<close> is the text outside the single-quoted, double-quoted and backtick
  strings (the quotes stay, what is between them goes, a backslash escaping the next
  character); \<open>spec_plain_literal\<close> says that this part has no comment opener, no bare
  key and no trailing comma.
\<close>

fun code_part :: "scan_mode \<Rightarrow> ustring \<Rightarrow> ustring" where
  "code_part m [] = []"
| "code_part Code (c # cs) =
     (if c = 34 \<or> c = 39 \<or> c = 96 then c # code_part (InString c) cs else c # code_part Code cs)"
| "code_part (InString q) (c # cs) =
     (if c = q then c # code_part Code cs
      else if c = 92 then code_part (Escaped q) cs
      else code_part (InString q) cs)"
| "code_part (Escaped q) (c # cs) = code_part (InString q) cs"

definition spec_plain_literal :: "runtime \<Rightarrow> ustring \<Rightarrow> bool" where
  "spec_plain_literal rt t =
     (let code = code_part Code t
      in \<not> is_substr [47, 47] code \<and> \<not> is_substr [47, 42] code
         \<and> \<not> has_bare_key_from rt None code \<and> \<not> has_trailing_comma code)"

text \<open>A document whose literal holds a template string with a line starting \<^verbatim>\<open>};\<close>.\<close>

definition template_doc :: ustring where
  \<open>template_doc = ustr ''const grammarData = {a: `'' @ [10] @ ustr ''};`};''\<close>

text \<open>
  A correction-style question: the answer is \<^verbatim>\<open>go -> went\<close> with the arrow
  U+2192, and the first hint says \<^verbatim>\<open>went\<close>.
\<close>

definition arrow_question :: question where
  "arrow_question =
     \<lparr>q_num = Value (NumInt 1), q_text = Some (ustr ''He go home.''),
      q_answer = Some (ustr ''go '' @ [8594] @ ustr '' went''),
      q_translation = None, q_vocab = None,
      q_hint = Some [ustr ''The past tense is went'', ustr ''h2'', ustr ''h3'']\<rparr>"

section \<open>Sentence answers are exempt from the hint check\<close>

text \<open>
  Claim C5. If the answer, trimmed and with a leading choice letter such as \<^verbatim>\<open>a. \<close>
  removed, splits at whitespace into four words or more, the hint-leak check returns the
  empty list, whatever the hints are.
\<close>

theorem sentence_answer_no_hint_findings:
  "4 \<le> length (py_split (strip_choice_prefix (py_strip a))) \<Longrightarrow> q_answer q = Some a
   \<Longrightarrow> check_hint_leaks rt q title = []"
  by (simp add: check_hint_leaks_def is_sentence_answer_def Let_def)

theorem sentence_answer_no_hint_findings_witness:
  "4 \<le> length (py_split (strip_choice_prefix (py_strip (ustr ''a. I like big dogs ''))))
   \<and> check_hint_leaks (basic_runtime no_parser)
        \<lparr>q_num = Absent, q_text = None, q_answer = Some (ustr ''a. I like big dogs ''),
         q_translation = None, q_vocab = None, q_hint = Some [ustr ''big dogs'']\<rparr>
        (ustr ''T'') = []"
proof -
  have h: "4 \<le> length (py_split (strip_choice_prefix (py_strip (ustr ''a. I like big dogs ''))))"
    by (simp add: ustr_def py_strip_def strip_choice_prefix_def py_split_def is_space_def)
  show ?thesis
    using h sentence_answer_no_hint_findings
      [OF h, of "\<lparr>q_num = Absent, q_text = None, q_answer = Some (ustr ''a. I like big dogs ''),
                  q_translation = None, q_vocab = None, q_hint = Some [ustr ''big dogs'']\<rparr>"]
    by simp
qed

section \<open>Stoplisted vocabulary entries\<close>

lemma common_words_lower_alpha:
  "w \<in> COMMON_WORDS \<Longrightarrow> list_all (\<lambda>c. 97 \<le> c \<and> c \<le> 122) w"
  unfolding COMMON_WORDS_def ustr_def by auto

lemma py_lower_lower_alpha:
  assumes "list_all (\<lambda>c. 97 \<le> c \<and> c \<le> 122) w"
  shows "py_lower rt w = w"
proof -
  from assms have "list_all (\<lambda>c. c < 128) w"
    by (induction w) auto
  moreover from assms have "map ascii_lower w = w"
    by (induction w) (auto simp: ascii_lower_def)
  ultimately show ?thesis by (simp add: py_lower_def)
qed

lemma filter_word_lower_alpha:
  "list_all (\<lambda>c. 97 \<le> c \<and> c \<le> 122) w
   \<Longrightarrow> filter (\<lambda>c. is_word rt c \<or> is_space c) w = w"
  by (induction w) (auto simp: is_word_def)

lemma dropWhile_space_lower_alpha:
  "list_all (\<lambda>c. 97 \<le> c \<and> c \<le> 122) w \<Longrightarrow> dropWhile is_space w = w"
  by (cases w) (auto simp: is_space_def)

lemma py_strip_lower_alpha:
  assumes "list_all (\<lambda>c. 97 \<le> c \<and> c \<le> 122) w"
  shows "py_strip w = w"
proof -
  from assms have "list_all (\<lambda>c. 97 \<le> c \<and> c \<le> 122) (rev w)"
    by (simp add: list_all_iff)
  then have "dropWhile is_space (rev w) = rev w"
    by (rule dropWhile_space_lower_alpha)
  with assms show ?thesis
    by (simp add: py_strip_def dropWhile_space_lower_alpha)
qed

lemma stoplisted_entry_skipped:
  assumes "w \<in> COMMON_WORDS"
  shows "check_vocab_entry rt num title sa aws (VList (w # rest)) = []"
proof -
  from assms have "list_all (\<lambda>c. 97 \<le> c \<and> c \<le> 122) w"
    by (rule common_words_lower_alpha)
  then have "py_strip (filter (\<lambda>c. is_word rt c \<or> is_space c) (py_lower rt w)) = w"
    by (simp add: py_lower_lower_alpha filter_word_lower_alpha py_strip_lower_alpha)
  with assms show ?thesis
    by (simp add: check_vocab_entry_def Let_def split: list.splits)
qed

text \<open>
  Claim C6. A vocabulary entry whose head word is a word of the stoplist contributes no
  finding to the vocabulary-leak check, whatever the question and its answer are: the
  body of the loop yields nothing for it, and the check returns what it returns for the
  vocabulary without that entry.
\<close>

theorem stoplisted_vocab_entry_no_finding:
  "w \<in> COMMON_WORDS \<Longrightarrow> q_vocab q = Some (before @ [VList (w # rest)] @ after)
   \<Longrightarrow> check_vocab_entry rt (num_of q) title sa aws (VList (w # rest)) = []
     \<and> check_vocab_leaks rt q title
         = check_vocab_leaks rt (q\<lparr>q_vocab := Some (before @ after)\<rparr>) title"
  by (simp add: check_vocab_leaks_def Let_def stoplisted_entry_skipped num_of_def)

theorem stoplisted_vocab_entry_no_finding_witness:
  "ustr ''the'' \<in> COMMON_WORDS
   \<and> check_vocab_leaks demo_runtime
        \<lparr>q_num = Absent, q_text = None, q_answer = Some (ustr ''b. honest''), q_translation = None,
         q_vocab = Some [VList [ustr ''honest'', ustr ''x''], VList [ustr ''the'', ustr ''y'']],
         q_hint = None\<rparr> (ustr ''T'')
     = check_vocab_leaks demo_runtime
        \<lparr>q_num = Absent, q_text = None, q_answer = Some (ustr ''b. honest''), q_translation = None,
         q_vocab = Some [VList [ustr ''honest'', ustr ''x'']], q_hint = None\<rparr> (ustr ''T'')"
proof -
  have h: "ustr ''the'' \<in> COMMON_WORDS"
    by (simp add: COMMON_WORDS_def)
  show ?thesis
    using h stoplisted_vocab_entry_no_finding
      [OF h, of "\<lparr>q_num = Absent, q_text = None, q_answer = Some (ustr ''b. honest''),
                  q_translation = None,
                  q_vocab = Some [VList [ustr ''honest'', ustr ''x''],
                                  VList [ustr ''the'', ustr ''y'']],
                  q_hint = None\<rparr>"
          "[VList [ustr ''honest'', ustr ''x'']]" "[ustr ''y'']" "[]" demo_runtime "ustr ''T''"]
    by simp
qed

section \<open>Findings of a file\<close>

lemma vocab_word_types:
  "x \<in> set (check_vocab_word rt num title sa head vw vwp aw) \<Longrightarrow> f_type x = vocab_leak"
  by (auto simp: check_vocab_word_def vocab_finding_def Let_def split: if_splits)

lemma vocab_entry_types:
  "x \<in> set (check_vocab_entry rt num title sa aws e) \<Longrightarrow> f_type x = vocab_leak"
  by (auto simp: check_vocab_entry_def Let_def split: if_splits vocab_entry.splits list.splits
      dest: vocab_word_types)

lemma vocab_leaks_types:
  "x \<in> set (check_vocab_leaks rt q title) \<Longrightarrow> f_type x = vocab_leak"
  by (auto simp: check_vocab_leaks_def Let_def split: if_splits dest: vocab_entry_types)

lemma hint_part_types:
  "x \<in> set (check_hint_part rt num title i hint aw) \<Longrightarrow> f_type x = hint_leak"
  by (auto simp: check_hint_part_def hint_finding_def Let_def split: if_splits)

lemma hint_leaks_types:
  "x \<in> set (check_hint_leaks rt q title) \<Longrightarrow> f_type x = hint_leak"
  by (auto simp: check_hint_leaks_def Let_def split: if_splits dest: hint_part_types)

lemma demote_type: "f_type (demote x) = f_type x"
  by (simp add: demote_def)

lemma required_fields_types:
  "x \<in> set (check_required_fields rt q title)
   \<Longrightarrow> f_type x = missing_field \<or> f_type x = no_pedagogy"
  by (auto simp: check_required_fields_def missing_finding_def Let_def demote_type
      split: if_splits)

lemma hint_count_types:
  "x \<in> set (check_hint_count q title) \<Longrightarrow> f_type x = hint_count"
  by (auto simp: check_hint_count_def Let_def split: if_splits)

lemma mismatch_findings_append:
  "mismatch_findings (xs @ ys) = mismatch_findings xs @ mismatch_findings ys"
  by (simp add: mismatch_findings_def)

lemma mismatch_findings_Nil: "mismatch_findings [] = []"
  by (simp add: mismatch_findings_def)

lemma mismatch_findings_file:
  "k \<noteq> categoryMap_mismatch
   \<Longrightarrow> mismatch_findings (file_finding k sev d # xs) = mismatch_findings xs"
  by (simp add: mismatch_findings_def file_finding_def)

lemma question_findings_types:
  "x \<in> set (check_vocab_leaks rt q t @ check_hint_leaks rt q t
            @ check_required_fields rt q t @ check_hint_count q t)
   \<Longrightarrow> f_type x \<noteq> categoryMap_mismatch"
  by (auto dest: vocab_leaks_types hint_leaks_types required_fields_types hint_count_types)

lemma question_no_mismatch:
  assumes "check_question rt title q = Inr found"
  shows "mismatch_findings found = []"
proof -
  from assms obtain t where
    "found = check_vocab_leaks rt q t @ check_hint_leaks rt q t
             @ check_required_fields rt q t @ check_hint_count q t"
    by (auto simp: check_question_def split: option.splits)
  then have "\<forall>x \<in> set found. f_type x \<noteq> categoryMap_mismatch"
    using question_findings_types by blast
  then show ?thesis
    by (simp add: mismatch_findings_def filter_empty_conv)
qed

lemma collect_no_mismatch:
  assumes "\<And>x found. check x = Inr found \<Longrightarrow> mismatch_findings found = []"
  shows "collect check xs = Inr found \<Longrightarrow> mismatch_findings found = []"
proof (induction xs arbitrary: found)
  case Nil
  then show ?case by (simp add: mismatch_findings_Nil)
next
  case (Cons x xs)
  from Cons.prems obtain a b where
    ab: "check x = Inr a" "collect check xs = Inr b" "found = a @ b"
    by (auto split: sum.splits)
  from assms [OF ab(1)] Cons.IH [OF ab(2)] ab(3) show ?case
    by (simp add: mismatch_findings_append)
qed

lemma section_no_mismatch:
  "check_section rt sec = Inr found \<Longrightarrow> mismatch_findings found = []"
  by (auto simp: check_section_def Let_def mismatch_findings_Nil split: field.splits
      intro: collect_no_mismatch [where check = "check_question rt t" for t]
      dest: question_no_mismatch)

lemma sections_no_mismatch:
  "collect (check_section rt) secs = Inr found \<Longrightarrow> mismatch_findings found = []"
  using section_no_mismatch by (rule collect_no_mismatch)

text \<open>Only the category check of \<open>validate_file\<close> can emit a mismatch finding.\<close>

lemma validate_file_mismatch:
  assumes "validate_file rt f = Inr (name, issues, m)"
  shows "mismatch_findings issues =
     (case parse_grammar_data rt (content f) of
        Inl e \<Rightarrow> []
      | Inr data \<Rightarrow>
          (case g_sections data of
             None \<Rightarrow> []
           | Some secs \<Rightarrow>
               if secs = [] then []
               else (case check_category_map rt (content f) (length secs) of
                       Inl e \<Rightarrow> []
                     | Inr category_issues \<Rightarrow> mismatch_findings category_issues)))"
  using assms
  by (auto simp: validate_file_def Let_def mismatch_findings_append sections_no_mismatch
      mismatch_findings_file mismatch_findings_Nil
      split: sum.splits option.splits if_splits)

lemma check_category_map_found:
  "search_category_map c = Some ct \<Longrightarrow>
   check_category_map rt c n =
     (if list_ex (int_raises rt) (digit_runs_from rt [] ct) then Inl ValueError
      else Inr (if referenced_indices rt ct = {0..<n} then []
                else [file_finding categoryMap_mismatch HIGH
                        (mismatch_detail ({0..<n} - referenced_indices rt ct)
                           (referenced_indices rt ct - {0..<n}))]))"
  by (simp add: check_category_map_def Let_def file_finding_def mismatch_detail_def)



subsection \<open>A null title, a null list of questions, a null number\<close>

lemma null_title_raises:
  "check_section rt \<lparr>s_title = Null, s_questions = Value (q # qs)\<rparr> = Inl AttributeError"
  by (simp add: check_section_def check_question_def)

lemma null_questions_raises:
  "check_section rt \<lparr>s_title = t, s_questions = Null\<rparr> = Inl TypeError"
  by (simp add: check_section_def)

lemma null_num_kept: "num_of (q\<lparr>q_num := Null\<rparr>) = NumNone"
  by (simp add: num_of_def)

subsection \<open>The example documents, evaluated\<close>

lemma demo_extract:
  "extract_grammar_data_text (content (demo_file tail)) = Some (ustr ''{sections: [{}]'' @ [10, 125])"
  by (simp add: demo_file_def ustr_def grammar_match_here_def is_space_def)

lemma demo_json:
  \<open>js_to_json rt (ustr ''{sections: [{}]'' @ [10, 125]) = ustr ''{ "sections": [{}]'' @ [10, 125]\<close>
  by (simp add: js_to_json_def ustr_def key_match_here_def is_space_def is_word_def Let_def)

lemma demo_parse: "parse_grammar_data demo_runtime (content (demo_file tail)) = Inr demo_tree"
  by (simp add: parse_grammar_data_def demo_extract demo_json)
     (simp add: demo_runtime_def basic_runtime_def demo_loads_def)

lemma demo_section: "check_section rt \<lparr>s_title = Absent, s_questions = Absent\<rparr> = Inr []"
  by (simp add: check_section_def)

lemma demo_validate:
  "validate_file demo_runtime (demo_file tail) =
     (case check_category_map demo_runtime (content (demo_file tail)) 1 of
        Inl e \<Rightarrow> Inl e
      | Inr category_issues \<Rightarrow>
          Inr (ustr ''Lesson 1.html'', category_issues,
               Some \<lparr>m_sections = 1, m_questions = 0, m_size_kb = 0\<rparr>))"
  by (simp add: validate_file_def demo_parse Let_def demo_tree_def demo_section
      count_questions_def split: sum.splits)
     (simp add: demo_file_def MAX_HTML_SIZE_def)

lemma demo_search_0:
  "search_category_map (content (demo_file ''categoryMap: {m: [0]}'')) = Some (ustr ''m: [0]'')"
  by (simp add: demo_file_def ustr_def category_match_here_def is_space_def)



lemma demo_runs_0: "digit_runs_from demo_runtime [] (ustr ''m: [0]'') = [[48]]"
  by (simp add: ustr_def is_digit_def)


lemma demo_no_raise: "\<not> int_raises demo_runtime [c]"
  by (simp add: int_raises_def demo_runtime_def basic_runtime_def)

lemma demo_referenced_0: "referenced_indices demo_runtime (ustr ''m: [0]'') = {0}"
  by (simp add: referenced_indices_def demo_runs_0 py_int_def digit_value_def)




lemma pass_validate:
  "validate_file demo_runtime (demo_file ''categoryMap: {m: [0]}'')
     = Inr (ustr ''Lesson 1.html'', [], Some \<lparr>m_sections = 1, m_questions = 0, m_size_kb = 0\<rparr>)"
  by (simp add: demo_validate check_category_map_found [OF demo_search_0] demo_runs_0
      demo_no_raise demo_referenced_0)



lemma low_extract:
  \<open>extract_grammar_data_text (content low_file)
     = Some (ustr ''{sections: [{questions: [{text: "t", answer: "a", translation: "n"}]}]''
             @ [10, 125])\<close>
  by (simp add: low_file_def ustr_def grammar_match_here_def is_space_def)

lemma low_json:
  \<open>js_to_json rt
     (ustr ''{sections: [{questions: [{text: "t", answer: "a", translation: "n"}]}]'' @ [10, 125])
     = ustr ''{ "sections": [{ "questions": [{ "text": "t", "answer": "a", "translation": "n"}]}]''
       @ [10, 125]\<close>
  by (simp add: js_to_json_def ustr_def key_match_here_def is_space_def is_word_def Let_def)

lemma low_parse: "parse_grammar_data demo_runtime (content low_file) = Inr low_tree"
  by (simp add: parse_grammar_data_def low_extract low_json)
     (simp add: demo_runtime_def basic_runtime_def demo_loads_def ustr_def)

lemma low_search: "search_category_map (content low_file) = None"
  by (simp add: low_file_def ustr_def category_match_here_def)

lemma low_question_findings:
  "check_question demo_runtime (Some (ustr ''Unknown section'')) low_question =
     Inr [\<lparr>f_type = no_pedagogy, f_severity = LOW, f_question = NumStr (ustr ''?''),
           f_section = ustr ''Unknown section'',
           f_detail = ustr ''No vocab AND no hints (student gets no help)''\<rparr>]"
  by (simp add: check_question_def check_vocab_leaks_def check_hint_leaks_def
      check_required_fields_def check_hint_count_def low_question_def Let_def
      field_missing_def num_of_def)
     (simp add: ustr_def py_strip_def is_space_def translation_keywords_def demo_runtime_def
      basic_runtime_def py_lower_def ascii_lower_def)

lemma low_validate:
  "validate_file demo_runtime low_file =
     Inr (ustr ''Lesson 2.html'',
          [\<lparr>f_type = no_pedagogy, f_severity = LOW, f_question = NumStr (ustr ''?''),
            f_section = ustr ''Unknown section'',
            f_detail = ustr ''No vocab AND no hints (student gets no help)''\<rparr>],
          Some \<lparr>m_sections = 1, m_questions = 1, m_size_kb = 0\<rparr>)"
  by (simp add: validate_file_def low_parse Let_def check_category_map_def
      low_search low_tree_def check_section_def low_question_findings count_questions_def)
     (simp add: low_file_def MAX_HTML_SIZE_def)

section \<open>The category-index check\<close>

text \<open>
  Claim C10. When the search for a category map finds none in the document text, no
  finding of kind \<open>categoryMap_mismatch\<close> is among the findings of the file: the check is
  skipped, the missing map is not read as the empty set of indices.
\<close>

theorem absent_category_map_no_mismatch:
  "search_category_map (content f) = None
   \<Longrightarrow> mismatch_findings (issues_of (validate_file rt f)) = []"
proof (cases "validate_file rt f")
  case (Inl e)
  then show ?thesis by (simp add: issues_of_def mismatch_findings_Nil)
next
  case (Inr r)
  assume none: "search_category_map (content f) = None"
  obtain name issues m where r: "r = (name, issues, m)"
    by (cases r) auto
  with Inr have v: "validate_file rt f = Inr (name, issues, m)" by simp
  from none have "check_category_map rt (content f) n = Inr []" for n
    by (simp add: check_category_map_def)
  with validate_file_mismatch [OF v] have "mismatch_findings issues = []"
    by (simp add: mismatch_findings_Nil split: sum.splits option.splits)
  with v show ?thesis by (simp add: issues_of_def)
qed

theorem absent_category_map_no_mismatch_witness:
  "search_category_map (content low_file) = None
   \<and> parse_grammar_data demo_runtime (content low_file) = Inr low_tree
   \<and> mismatch_findings (issues_of (validate_file demo_runtime low_file)) = []"
  using absent_category_map_no_mismatch [OF low_search, of demo_runtime] low_search low_parse
  by simp




section \<open>The exit status\<close>

lemma run_files_result:
  "run_files rt ap files = Inr b
   \<longleftrightarrow> list_all (completes rt) files
       \<and> b = (ap \<and> list_all (\<lambda>f. issues_of (validate_file rt f) = []) files)"
  by (induction files arbitrary: ap)
     (auto simp: print_report_def issues_of_def completes_def split: sum.splits prod.splits)

lemma main_exit_zero:
  "main_exit rt files = 0
   \<longleftrightarrow> files \<noteq> [] \<and> list_all (completes rt) files
       \<and> list_all (\<lambda>f. issues_of (validate_file rt f) = []) files"
proof (cases "run_files rt True files")
  case (Inl e)
  then have "\<not> list_all (completes rt) files"
    using run_files_result [of rt True files] by auto
  with Inl show ?thesis by (simp add: main_exit_def)
next
  case (Inr b)
  then show ?thesis
    using run_files_result [of rt True files b] by (auto simp: main_exit_def)
qed

text \<open>
  Claim C8, as the code has it by design. A run over a non-empty list of files, each of
  them validated to the end, exits with status 0 exactly when no file has a finding, of
  whatever severity. With no file to check the run exits with status 1.
\<close>

theorem exit_status_iff_no_findings:
  "(files \<noteq> [] \<longrightarrow> list_all (completes rt) files
    \<longrightarrow> (main_exit rt files = 0
         \<longleftrightarrow> (\<forall>f \<in> set files. issues_of (validate_file rt f) = [])))
   \<and> main_exit rt [] = 1"
  by (simp add: main_exit_zero list_all_iff) (simp add: main_exit_def)

theorem exit_status_iff_no_findings_witness:
  "list_all (completes demo_runtime) [demo_file ''categoryMap: {m: [0]}'', low_file]
   \<and> main_exit demo_runtime [demo_file ''categoryMap: {m: [0]}''] = 0
   \<and> map f_severity (issues_of (validate_file demo_runtime low_file)) = [LOW]
   \<and> main_exit demo_runtime [demo_file ''categoryMap: {m: [0]}'', low_file] \<noteq> 0"
  using exit_status_iff_no_findings [of "[demo_file ''categoryMap: {m: [0]}'']" demo_runtime]
    exit_status_iff_no_findings [of "[demo_file ''categoryMap: {m: [0]}'', low_file]" demo_runtime]
  by (simp add: completes_def issues_of_def pass_validate low_validate)

text \<open>
  The claim as the spec states it fails on the empty list: no file has a finding, and the
  exit status is not success.
\<close>

theorem empty_run_counterexample:
  "\<not> (main_exit demo_runtime [] = 0
       \<longleftrightarrow> (\<forall>f \<in> set []. issues_of (validate_file demo_runtime f) = []))"
  by (simp add: main_exit_def)

section \<open>What the extractor returns\<close>

lemma is_substr_prefix: "prefix pat s \<Longrightarrow> is_substr pat s"
  by (cases s) auto

lemma before_terminator_shape:
  "before_terminator r = Some body
   \<Longrightarrow> \<exists>post. r = body @ [10, 125, 59] @ post \<and> \<not> is_substr [10, 125, 59] (body @ [10, 125])"
proof (induction r arbitrary: body)
  case Nil
  then show ?case by simp
next
  case (Cons c cs)
  show ?case
  proof (cases "prefix [10, 125, 59] (c # cs)")
    case True
    with Cons.prems have "body = []" by simp
    moreover from True obtain post where "c # cs = [10, 125, 59] @ post"
      by (auto simp: prefix_def)
    ultimately show ?thesis by simp
  next
    case False
    with Cons.prems obtain b where b: "before_terminator cs = Some b" "body = c # b"
      by auto
    from Cons.IH [OF b(1)] obtain post where
      p: "cs = b @ [10, 125, 59] @ post" "\<not> is_substr [10, 125, 59] (b @ [10, 125])"
      by blast
    have "\<not> prefix [10, 125, 59] (c # b @ [10, 125])"
    proof
      assume "prefix [10, 125, 59] (c # b @ [10, 125])"
      then have "prefix [10, 125, 59] ((c # b @ [10, 125]) @ [59] @ post)"
        by (rule prefix_prefix)
      with p(1) False show False by simp
    qed
    with p b(2) show ?thesis by simp
  qed
qed

lemma span_of_dropWhile:
  "dropWhile P xs = y # ys \<Longrightarrow> xs = takeWhile P xs @ y # ys"
  by (metis takeWhile_dropWhile_id)

lemma list_all_takeWhile: "list_all P (takeWhile P xs)"
  by (induction xs) auto

lemma grammar_match_here_shape:
  assumes "grammar_match_here s = Some g"
  shows "\<exists>ws1 ws2 body post.
           s = ustr ''const grammarData'' @ ws1 @ [61] @ ws2 @ g @ [59] @ post
           \<and> list_all is_space ws1 \<and> list_all is_space ws2
           \<and> g = 123 # body @ [10, 125] \<and> \<not> is_substr [10, 125, 59] (body @ [10, 125])"
proof -
  let ?P = "ustr ''const grammarData''"
  from assms have pre: "prefix ?P s"
    by (simp add: grammar_match_here_def split: if_splits)
  then have s: "s = ?P @ drop (length ?P) s"
    by (metis append_eq_conv_conj prefix_def)
  let ?a = "drop (length ?P) s"
  from assms pre obtain r1 where r1: "dropWhile is_space ?a = 61 # r1"
    by (auto simp: grammar_match_here_def split: if_splits list.splits)
  from assms pre r1 obtain r2 where r2: "dropWhile is_space r1 = 123 # r2"
    by (auto simp: grammar_match_here_def split: if_splits list.splits)
  from assms pre r1 r2 obtain body where
    body: "before_terminator r2 = Some body" "g = 123 # body @ [10, 125]"
    by (auto simp: grammar_match_here_def split: if_splits list.splits option.splits)
  from before_terminator_shape [OF body(1)] obtain post where
    post: "r2 = body @ [10, 125, 59] @ post" "\<not> is_substr [10, 125, 59] (body @ [10, 125])"
    by blast
  have a: "?a = takeWhile is_space ?a @ 61 # r1"
    using r1 by (rule span_of_dropWhile)
  have b: "r1 = takeWhile is_space r1 @ 123 # r2"
    using r2 by (rule span_of_dropWhile)
  have "s = ?P @ takeWhile is_space ?a @ [61] @ takeWhile is_space r1 @ g @ [59] @ post"
    using s a b post(1) body(2) by (metis append_Cons append_Nil append_assoc)
  with body(2) post(2) show ?thesis
    using list_all_takeWhile by blast
qed

lemma extract_shape:
  "extract_grammar_data_text t = Some g
   \<Longrightarrow> \<exists>pre ws1 ws2 body post.
         t = pre @ ustr ''const grammarData'' @ ws1 @ [61] @ ws2 @ g @ [59] @ post
         \<and> list_all is_space ws1 \<and> list_all is_space ws2
         \<and> g = 123 # body @ [10, 125] \<and> \<not> is_substr [10, 125, 59] (body @ [10, 125])"
proof (induction t)
  case Nil
  then show ?case by simp
next
  case (Cons c cs)
  show ?case
  proof (cases "grammar_match_here (c # cs)")
    case None
    with Cons.prems have "extract_grammar_data_text cs = Some g" by simp
    from Cons.IH [OF this] obtain pre ws1 ws2 body post where
      "cs = pre @ ustr ''const grammarData'' @ ws1 @ [61] @ ws2 @ g @ [59] @ post"
      "list_all is_space ws1" "list_all is_space ws2"
      "g = 123 # body @ [10, 125]" "\<not> is_substr [10, 125, 59] (body @ [10, 125])"
      by blast
    then have "c # cs = (c # pre) @ ustr ''const grammarData'' @ ws1 @ [61] @ ws2 @ g @ [59] @ post
        \<and> list_all is_space ws1 \<and> list_all is_space ws2
        \<and> g = 123 # body @ [10, 125] \<and> \<not> is_substr [10, 125, 59] (body @ [10, 125])"
      by simp
    then show ?thesis by blast
  next
    case (Some g')
    with Cons.prems have "grammar_match_here (c # cs) = Some g" by simp
    from grammar_match_here_shape [OF this] obtain ws1 ws2 body post where
      "c # cs = [] @ ustr ''const grammarData'' @ ws1 @ [61] @ ws2 @ g @ [59] @ post
        \<and> list_all is_space ws1 \<and> list_all is_space ws2
        \<and> g = 123 # body @ [10, 125] \<and> \<not> is_substr [10, 125, 59] (body @ [10, 125])"
      by auto
    then show ?thesis by blast
  qed
qed

lemma extract_needs_prefix:
  "\<not> is_substr (ustr ''const grammarData'') t \<Longrightarrow> extract_grammar_data_text t = None"
  by (induction t) (auto simp: grammar_match_here_def split: option.splits)
text \<open>
  Claim C1, as the code has it. The extractor is a pattern search, not a scanner that
  counts braces. When it returns a span \<open>g\<close>, the document reads: some text, the words
  \<^verbatim>\<open>const grammarData\<close>, whitespace, \<^verbatim>\<open>=\<close>, whitespace, \<open>g\<close>, a semicolon, some
  text; \<open>g\<close> starts at the opening brace and ends with the first newline and closing
  brace that a semicolon follows, whether or not that place lies inside a string literal.
  When \<^verbatim>\<open>const grammarData\<close> does not occur in the document, nothing is found.
\<close>

theorem extractor_search_span:
  "(extract_grammar_data_text t = Some g \<longrightarrow>
      (\<exists>pre ws1 ws2 body post.
         t = pre @ ustr ''const grammarData'' @ ws1 @ [61] @ ws2 @ g @ [59] @ post
         \<and> list_all is_space ws1 \<and> list_all is_space ws2
         \<and> g = 123 # body @ [10, 125] \<and> \<not> is_substr [10, 125, 59] (body @ [10, 125])))
   \<and> (\<not> is_substr (ustr ''const grammarData'') t \<longrightarrow> extract_grammar_data_text t = None)"
  using extract_shape extract_needs_prefix by blast
theorem extractor_search_span_witness:
  "extract_grammar_data_text (content (demo_file '''')) = Some (ustr ''{sections: [{}]'' @ [10, 125])
   \<and> (\<exists>pre ws1 ws2 body post.
         content (demo_file '''')
           = pre @ ustr ''const grammarData'' @ ws1 @ [61] @ ws2
             @ (ustr ''{sections: [{}]'' @ [10, 125]) @ [59] @ post
         \<and> list_all is_space ws1 \<and> list_all is_space ws2
         \<and> ustr ''{sections: [{}]'' @ [10, 125] = 123 # body @ [10, 125]
         \<and> \<not> is_substr [10, 125, 59] (body @ [10, 125]))
   \<and> \<not> is_substr (ustr ''const grammarData'') (ustr ''<p>no data</p>'')
   \<and> extract_grammar_data_text (ustr ''<p>no data</p>'') = None"
proof -
  have a: "extract_grammar_data_text (content (demo_file ''''))
             = Some (ustr ''{sections: [{}]'' @ [10, 125])"
    by (rule demo_extract)
  have b: "\<not> is_substr (ustr ''const grammarData'') (ustr ''<p>no data</p>'')"
    by (simp add: ustr_def)
  show ?thesis
    using a b
      extractor_search_span [of "content (demo_file '''')" "ustr ''{sections: [{}]'' @ [10, 125]"]
      extractor_search_span [of "ustr ''<p>no data</p>''"]
    by blast
qed

text \<open>
  The claim as the spec states it fails on a literal with a template string that holds a
  line starting \<^verbatim>\<open>};\<close>: the search stops inside the string, where the brace-counting
  scanner of \<^verbatim>\<open>upload-answers.py\<close> goes on to the brace that closes the literal.
\<close>

theorem terminator_inside_string_counterexample:
  \<open>extract_grammar_data_text template_doc = Some (ustr ''{a: `'' @ [10, 125])
   \<and> scan_balanced Code 0 (drop (length (ustr ''const grammarData = '')) template_doc)
       = ustr ''{a: `'' @ [10] @ ustr ''};`}''
   \<and> extract_grammar_data_text template_doc
       \<noteq> Some (scan_balanced Code 0 (drop (length (ustr ''const grammarData = '')) template_doc))\<close>
  by (simp add: template_doc_def ustr_def grammar_match_here_def is_space_def)

section \<open>Normalisation and string literals\<close>

text \<open>
  Claim C2. The comment above the first substitution of \<^verbatim>\<open>js_to_json\<close> says that line
  comments are removed, but not inside strings. The pattern has no notion of a string:
  the URL in the string value of the extracted literal below loses everything from its
  two slashes to the end of the line, closing quote included. This holds for every
  runtime.
\<close>

theorem url_in_string_stripped:
  \<open>extract_grammar_data_text (ustr ''const grammarData = {"url": "http://a.b"'' @ [10] @ ustr ''};'')
     = Some (ustr ''{"url": "http://a.b"'' @ [10, 125])
   \<and> js_to_json rt (ustr ''{"url": "http://a.b"'' @ [10, 125]) = ustr ''{"url": "http:'' @ [10, 125]\<close>
  by (simp add: js_to_json_def ustr_def key_match_here_def is_space_def is_word_def Let_def
      grammar_match_here_def)

text \<open>
  Claim C3. The literal below, as the extractor returns it, has no comment, no bare key
  and no trailing comma: its only comma and colon are inside a string value. The key
  pattern has no notion of a string either and rewrites the inside of the string, so the
  output is not the input (and is no longer valid JSON). This holds for every runtime.
\<close>

theorem colon_in_string_rewritten:
  \<open>extract_grammar_data_text
      (ustr ''const grammarData = {"hint": ["First, remember: be"]'' @ [10] @ ustr ''};'')
     = Some (ustr ''{"hint": ["First, remember: be"]'' @ [10, 125])
   \<and> spec_plain_literal rt (ustr ''{"hint": ["First, remember: be"]'' @ [10, 125])
   \<and> js_to_json rt (ustr ''{"hint": ["First, remember: be"]'' @ [10, 125])
       = ustr ''{"hint": ["First, "remember": be"]'' @ [10, 125]
   \<and> js_to_json rt (ustr ''{"hint": ["First, remember: be"]'' @ [10, 125])
       \<noteq> ustr ''{"hint": ["First, remember: be"]'' @ [10, 125]\<close>
  by (simp add: spec_plain_literal_def js_to_json_def ustr_def key_match_here_def is_space_def
      is_word_def Let_def grammar_match_here_def)

section \<open>Correction-style answers and hints\<close>

text \<open>
  Claim C4. For the answer \<^verbatim>\<open>go -> went\<close> (with the arrow U+2192) the answer words
  of \<^verbatim>\<open>extract_answer_words\<close>, which the vocabulary check uses, are the right-hand
  side \<^verbatim>\<open>went\<close> alone, and the hint \<^verbatim>\<open>The past tense is went\<close> matches it as a
  whole word. The hint check does not use them: it splits the whole answer at commas,
  compares the whole phrase by containment, and reports nothing.
\<close>

theorem arrow_answer_hint_unchecked:
  "check_hint_leaks demo_runtime arrow_question (ustr ''T'') = []
   \<and> extract_answer_words demo_runtime (ustr ''go '' @ [8594] @ ustr '' went'') = [ustr ''went'']
   \<and> check_hint_part demo_runtime (NumInt 1) (ustr ''T'') 0 (ustr ''The past tense is went'')
        (ustr ''went'')
       = [hint_finding (NumInt 1) (ustr ''T'') 0 (ustr ''The past tense is went'')
            '' contains answer '' (ustr ''went'')]"
  by (simp add: check_hint_leaks_def arrow_question_def Let_def extract_answer_words_def
      check_hint_part_def is_sentence_answer_def strip_choice_prefix_def py_strip_def
      py_split_def py_lower_def ascii_lower_def ustr_def is_space_def demo_runtime_def
      basic_runtime_def COMMON_WORDS_def word_search_def word_match_here_def at_boundary_def
      opt_word_def head_opt_def is_word_def num_of_def)

end
